theory Spec2Isabelle
  imports Main "HOL-Library.Sublist"
begin

unbundle bit_operations_syntax

section \<open>Errors\<close>

text \<open>
  The exceptions that \<^verbatim>\<open>datasets/voc.py\<close> raises itself or lets through, each with
  its message. \<open>External\<close> carries a failure of a collaborator (the downloader, the
  archive reader, the image library, a caller-supplied transform), kept apart from the
  exceptions of the module's own statements. The four after \<open>IndexError\<close> are the
  errors of the operating system, each with the path of the call that failed.
\<close>

datatype error =
    KeyError string
  | RuntimeError string
  | ValueError string
  | AssertionError string
  | Exception string
  | IndexError
  | IsADirectoryError string
  | FileNotFoundError string
  | NotADirectoryError string
  | FileExistsError string
  | External string

section \<open>The colormap: \<^verbatim>\<open>voc_cmap\<close>\<close>

text \<open>
  \<^verbatim>\<open>def bitget(byteval, idx): return ((byteval & (1 << idx)) != 0)\<close>
  on Python's unbounded integers.
\<close>

definition bitget :: "int \<Rightarrow> nat \<Rightarrow> bool" where
  "bitget byteval idx = ((byteval AND push_bit idx 1) \<noteq> 0)"

text \<open>
  The body of \<^verbatim>\<open>for j in range(8)\<close>, on the loop state \<open>(r, g, b, c)\<close>. A Python
  \<^verbatim>\<open>bool\<close> shifted left is the integer 0 or 1 shifted left; \<^verbatim>\<open><< 7-j\<close> parses as
  \<^verbatim>\<open><< (7-j)\<close>.
\<close>

fun bit_loop :: "nat list \<Rightarrow> int \<times> int \<times> int \<times> int \<Rightarrow> int \<times> int \<times> int \<times> int" where
  "bit_loop [] s = s"
| "bit_loop (j # js) (r, g, b, c) =
     bit_loop js
       (r OR push_bit (7 - j) (of_bool (bitget c 0)),
        g OR push_bit (7 - j) (of_bool (bitget c 1)),
        b OR push_bit (7 - j) (of_bool (bitget c 2)),
        drop_bit 3 c)"

text \<open>The triple \<^verbatim>\<open>[r, g, b]\<close> computed for the index \<open>i\<close> by one pass of the outer loop.\<close>

definition cmap_rgb :: "int \<Rightarrow> int \<times> int \<times> int" where
  "cmap_rgb i = (case bit_loop [0..<8] (0, 0, 0, i) of (r, g, b, c) \<Rightarrow> (r, g, b))"

text \<open>
  \<^verbatim>\<open>cmap[i] = np.array([r, g, b])\<close> stores into a row of the table. A \<^verbatim>\<open>uint8\<close> table
  keeps the value modulo 256. A \<^verbatim>\<open>float32\<close> table holds every integer of magnitude up
  to \<open>2 ^ 24\<close> exactly, so its rows are kept as the integers they hold until the
  division.
\<close>

definition store_row :: "bool \<Rightarrow> int \<times> int \<times> int \<Rightarrow> int \<times> int \<times> int" where
  "store_row normalized v =
     (if normalized then v
      else (case v of (r, g, b) \<Rightarrow> (r mod 256, g mod 256, b mod 256)))"

text \<open>\<^verbatim>\<open>for i in range(N): ... cmap[i] = ...\<close> on the table as a list of rows.\<close>

fun fill_loop :: "bool \<Rightarrow> nat list \<Rightarrow> (int \<times> int \<times> int) list \<Rightarrow> (int \<times> int \<times> int) list" where
  "fill_loop normalized [] cmap = cmap"
| "fill_loop normalized (i # is) cmap =
     fill_loop normalized is (cmap[i := store_row normalized (cmap_rgb (int i))])"

text \<open>
  The returned array: rows of bytes for \<^verbatim>\<open>dtype='uint8'\<close>, rows of floating-point
  numbers of type \<open>'f\<close> for \<^verbatim>\<open>dtype='float32'\<close>.
\<close>

datatype 'f colormap =
    UInt8 "(int \<times> int \<times> int) list"
  | Float32 "('f \<times> 'f \<times> 'f) list"

definition map_rgb :: "('a \<Rightarrow> 'b) \<Rightarrow> 'a \<times> 'a \<times> 'a \<Rightarrow> 'b \<times> 'b \<times> 'b" where
  "map_rgb f v = (case v of (r, g, b) \<Rightarrow> (f r, f g, f b))"

text \<open>
  \<^verbatim>\<open>voc_cmap(N, normalized)\<close>. \<^verbatim>\<open>np.zeros((N, 3), dtype)\<close> raises \<^verbatim>\<open>ValueError\<close> for a
  negative \<open>N\<close> and gives \<open>N\<close> rows of zeros otherwise. The last statement,
  \<^verbatim>\<open>cmap/255 if normalized else cmap\<close>, divides every cell of the \<^verbatim>\<open>float32\<close> table by
  255 in floating point: \<open>div255\<close> is that operation, from the integer a cell holds to
  the quotient. It is a parameter here; \<open>float32_div255\<close> below is the division that
  the code performs.
\<close>

definition voc_cmap :: "(int \<Rightarrow> 'f) \<Rightarrow> int \<Rightarrow> bool \<Rightarrow> error + 'f colormap" where
  "voc_cmap div255 N normalized =
     (if N < 0 then Inl (ValueError ''negative dimensions are not allowed'')
      else
        let cmap = fill_loop normalized [0..<nat N] (replicate (nat N) (0, 0, 0))
        in Inr (if normalized then Float32 (map (map_rgb div255) cmap) else UInt8 cmap))"

text \<open>The number of rows of a table.\<close>

fun rows :: "'f colormap \<Rightarrow> nat" where
  "rows (UInt8 t) = length t"
| "rows (Float32 t) = length t"

subsection \<open>The division of the normalized table\<close>

text \<open>
  A binary32 number that is not zero is a significand of 24 bits, from \<open>2 ^ 23\<close> up to
  \<open>2 ^ 24\<close>, and a power of two: \<open>F32 m k\<close> stands for \<open>m / 2 ^ k\<close>, and \<open>F32 0 0\<close> for
  zero. \<^verbatim>\<open>cmap/255\<close> on a \<^verbatim>\<open>float32\<close> table divides each cell by 255 in binary32,
  rounding the quotient to the nearest number of that form, a tie to the even
  significand. \<open>float32_div255 r\<close> is that quotient for a cell that holds the integer
  \<open>r\<close> from 0 to 255: the exponent \<open>k\<close> is the least that brings \<open>r * 2 ^ k / 255\<close> up
  to \<open>2 ^ 23\<close>.
\<close>

datatype f32 = F32 int nat

definition float32_div255 :: "int \<Rightarrow> f32" where
  "float32_div255 r =
     (case find (\<lambda>k. 2 ^ 23 * 255 \<le> r * 2 ^ k) [0..<32] of
        None \<Rightarrow> F32 0 0
      | Some k \<Rightarrow>
          let q = (r * 2 ^ k) div 255;
              rest = (r * 2 ^ k) mod 255;
              m = (if 255 < 2 * rest \<or> (2 * rest = 255 \<and> odd q) then q + 1 else q)
          in if m = 2 ^ 24 then F32 (2 ^ 23) (k - 1) else F32 m k)"

subsection \<open>The reference algorithm of the specification\<close>

text \<open>
  Section 4.1 of the specification, in its own words: start from \<open>r = g = b = 0\<close> and a
  working copy \<open>c = i\<close>; for \<open>j\<close> from 0 to 7, OR bit 0 of \<open>c\<close>, shifted left by
  \<open>7 - j\<close>, into \<open>r\<close>, bit 1 into \<open>g\<close>, bit 2 into \<open>b\<close>; then shift \<open>c\<close> right by 3.
\<close>

definition spec_step :: "nat \<Rightarrow> int \<times> int \<times> int \<times> int \<Rightarrow> int \<times> int \<times> int \<times> int" where
  "spec_step j s =
     (case s of (r, g, b, c) \<Rightarrow>
        (r OR (if bit c 0 then 2 ^ (7 - j) else 0),
         g OR (if bit c 1 then 2 ^ (7 - j) else 0),
         b OR (if bit c 2 then 2 ^ (7 - j) else 0),
         c div 8))"

definition spec_rgb :: "int \<Rightarrow> int \<times> int \<times> int" where
  "spec_rgb i = (case fold spec_step [0, 1, 2, 3, 4, 5, 6, 7] (0, 0, 0, i) of (r, g, b, c) \<Rightarrow> (r, g, b))"

section \<open>Paths\<close>

text \<open>
  The functions of \<^verbatim>\<open>os.path\<close> (POSIX flavour) that the module calls, on strings.
  \<^verbatim>\<open>isabs(s)\<close> is \<^verbatim>\<open>s.startswith('/')\<close>.
\<close>

definition isabs :: "string \<Rightarrow> bool" where
  "isabs s = (case s of [] \<Rightarrow> False | c # _ \<Rightarrow> c = CHR ''/'')"

text \<open>
  \<^verbatim>\<open>os.path.join(a, b)\<close>: an absolute \<open>b\<close> replaces \<open>a\<close>; otherwise \<open>b\<close> is appended,
  after a separator unless \<open>a\<close> is empty or already ends with one.
\<close>

definition os_join :: "string \<Rightarrow> string \<Rightarrow> string" where
  "os_join a b =
     (if isabs b then b
      else if a = [] \<or> last a = CHR ''/'' then a @ b
      else a @ ''/'' @ b)"

text \<open>\<^verbatim>\<open>s.split(sep)\<close> for a one-character separator, and \<^verbatim>\<open>sep.join(comps)\<close>.\<close>

fun split_sep :: "char \<Rightarrow> string \<Rightarrow> string list" where
  "split_sep sep [] = [[]]"
| "split_sep sep (c # cs) =
     (if c = sep then [] # split_sep sep cs
      else (case split_sep sep cs of [] \<Rightarrow> [[c]] | w # ws \<Rightarrow> (c # w) # ws))"

fun join_sep :: "string \<Rightarrow> string list \<Rightarrow> string" where
  "join_sep sep [] = []"
| "join_sep sep [x] = x"
| "join_sep sep (x # y # zs) = x @ sep @ join_sep sep (y # zs)"

text \<open>
  The loop of \<^verbatim>\<open>normpath\<close> over the components: empty components and \<^verbatim>\<open>.\<close> are
  dropped; \<^verbatim>\<open>..\<close> removes the component before it, is kept at the start of a relative
  path or after another \<^verbatim>\<open>..\<close>, and is dropped at the root of an absolute path.
\<close>

fun norm_comps :: "bool \<Rightarrow> string list \<Rightarrow> string list \<Rightarrow> string list" where
  "norm_comps initial_slashes [] new_comps = new_comps"
| "norm_comps initial_slashes (comp' # comps) new_comps =
     (if comp' = [] \<or> comp' = ''.'' then norm_comps initial_slashes comps new_comps
      else if comp' \<noteq> ''..'' \<or> (\<not> initial_slashes \<and> new_comps = [])
                \<or> (new_comps \<noteq> [] \<and> last new_comps = ''..'')
        then norm_comps initial_slashes comps (new_comps @ [comp'])
      else if new_comps \<noteq> [] then norm_comps initial_slashes comps (butlast new_comps)
      else norm_comps initial_slashes comps new_comps)"

definition normpath :: "string \<Rightarrow> string" where
  "normpath path =
     (if path = [] then ''.''
      else
        let initial_slashes =
              (if isabs path
               then (if take 2 path = ''//'' \<and> take 3 path \<noteq> ''///'' then 2 else 1)
               else (0::nat));
            comps = norm_comps (initial_slashes \<noteq> 0) (split_sep CHR ''/'' path) [];
            path' = replicate initial_slashes CHR ''/'' @ join_sep ''/'' comps
        in if path' = [] then ''.'' else path')"

text \<open>
  \<^verbatim>\<open>os.path.abspath(path)\<close>: a relative path is joined to the current directory
  \<open>cwd\<close> (what \<^verbatim>\<open>os.getcwd()\<close> returns), then normalised. Symbolic links are not
  followed.
\<close>

definition abspath :: "string \<Rightarrow> string \<Rightarrow> string" where
  "abspath cwd path = normpath (if isabs path then path else os_join cwd path)"

text \<open>
  \<^verbatim>\<open>os.path.commonprefix([a, b])\<close>: the scan of the smaller of the two strings against
  the larger stops at the first position where they differ, so the result is their
  longest common prefix, character by character.
\<close>

fun commonprefix :: "string \<Rightarrow> string \<Rightarrow> string" where
  "commonprefix (x # xs) (y # ys) = (if x = y then x # commonprefix xs ys else [])"
| "commonprefix _ _ = []"

text \<open>\<^verbatim>\<open>is_within_directory(directory, target)\<close>, nested in \<^verbatim>\<open>download_extract\<close>.\<close>

definition is_within_directory :: "string \<Rightarrow> string \<Rightarrow> string \<Rightarrow> bool" where
  "is_within_directory cwd directory target =
     (let abs_directory = abspath cwd directory;
          abs_target = abspath cwd target;
          prefix' = commonprefix abs_directory abs_target
      in prefix' = abs_directory)"

subsection \<open>Containment by path segments, as the specification asks for it\<close>

text \<open>
  Sections 4.2 and 9 of the specification: both paths made absolute, then compared as
  sequences of path segments, not as raw strings.
\<close>

definition path_segments :: "string \<Rightarrow> string list" where
  "path_segments p = filter (\<lambda>s. s \<noteq> []) (split_sep CHR ''/'' p)"

definition segment_within :: "string \<Rightarrow> string \<Rightarrow> string \<Rightarrow> bool" where
  "segment_within cwd directory target =
     prefix (path_segments (abspath cwd directory)) (path_segments (abspath cwd target))"

section \<open>The file system and the archive\<close>

text \<open>
  The file system as the module sees it: what a path string names, a directory or a
  file. A text file is held as the list of lines that \<^verbatim>\<open>readlines()\<close> returns, each
  with its line terminator.
\<close>

datatype node = Dir | File "string list"

type_synonym fs = "string \<rightharpoonup> node"

definition isdir :: "fs \<Rightarrow> string \<Rightarrow> bool" where
  "isdir fs p = (fs p = Some Dir)"

definition exists_path :: "fs \<Rightarrow> string \<Rightarrow> bool" where
  "exists_path fs p = (fs p \<noteq> None)"

text \<open>\<^verbatim>\<open>with open(p, "r") as f: f.readlines()\<close>.\<close>

definition readlines :: "fs \<Rightarrow> string \<Rightarrow> error + string list" where
  "readlines fs p =
     (case fs p of
        None \<Rightarrow> Inl (FileNotFoundError p)
      | Some Dir \<Rightarrow> Inl (IsADirectoryError p)
      | Some (File ls) \<Rightarrow> Inr ls)"

subsection \<open>Path resolution and the system calls that write\<close>

text \<open>
  The archive library writes through the operating system, which resolves a path
  component by component. The entries of the file system are held under their
  absolute paths without \<^verbatim>\<open>.\<close>, \<^verbatim>\<open>..\<close> or doubled slashes, and the root directory is
  always there. \<open>components\<close> are the components of a path made absolute, empty ones
  dropped (so a slash at the end does not count); \<open>path_of\<close> writes a list of
  components back as a path.
\<close>

definition components :: "string \<Rightarrow> string \<Rightarrow> string list" where
  "components cwd p =
     filter (\<lambda>c. c \<noteq> []) (split_sep CHR ''/'' (if isabs p then p else os_join cwd p))"

definition path_of :: "string list \<Rightarrow> string" where
  "path_of cs = (if cs = [] then ''/'' else concat (map (\<lambda>c. CHR ''/'' # c) cs))"

definition node_at :: "fs \<Rightarrow> string list \<Rightarrow> node option" where
  "node_at fs cs = (if cs = [] then Some Dir else fs (path_of cs))"

text \<open>
  The walk from the directory \<open>cur\<close> along the components left: \<^verbatim>\<open>.\<close> stays, \<^verbatim>\<open>..\<close>
  goes up (and stays at the root), and every component that is not the last has to be
  a directory, or the call fails with \<^verbatim>\<open>ENOENT\<close> or \<^verbatim>\<open>ENOTDIR\<close>. The last component
  need not exist. The result is where the path leads, or the exception to raise.
  Symbolic links are not modelled.
\<close>

fun walk :: "fs \<Rightarrow> string list \<Rightarrow> string list \<Rightarrow> (string \<Rightarrow> error) + string list" where
  "walk fs cur [] = Inr cur"
| "walk fs cur (c # cs) =
     (if c = ''.'' then walk fs cur cs
      else if c = ''..'' then walk fs (butlast cur) cs
      else if cs = [] then Inr (cur @ [c])
      else (case fs (path_of (cur @ [c])) of
              Some Dir \<Rightarrow> walk fs (cur @ [c]) cs
            | Some (File _) \<Rightarrow> Inl NotADirectoryError
            | None \<Rightarrow> Inl FileNotFoundError))"

text \<open>
  \<^verbatim>\<open>os.path.exists\<close> and \<^verbatim>\<open>os.path.isdir\<close> (false when the path does not resolve),
  \<^verbatim>\<open>os.mkdir\<close> and \<^verbatim>\<open>open(p, "wb")\<close> followed by the writes, on the components of
  the path. A call that fails leaves the file system as it was.
\<close>

definition exists_at :: "fs \<Rightarrow> string list \<Rightarrow> bool" where
  "exists_at fs p = (case walk fs [] p of Inl _ \<Rightarrow> False | Inr cs \<Rightarrow> node_at fs cs \<noteq> None)"

definition isdir_at :: "fs \<Rightarrow> string list \<Rightarrow> bool" where
  "isdir_at fs p = (case walk fs [] p of Inl _ \<Rightarrow> False | Inr cs \<Rightarrow> node_at fs cs = Some Dir)"

definition mkdir :: "fs \<Rightarrow> string list \<Rightarrow> error option \<times> fs" where
  "mkdir fs p =
     (case walk fs [] p of
        Inl raise \<Rightarrow> (Some (raise (path_of p)), fs)
      | Inr cs \<Rightarrow>
          if node_at fs cs \<noteq> None then (Some (FileExistsError (path_of p)), fs)
          else (None, fs(path_of cs \<mapsto> Dir)))"

definition open_wb :: "fs \<Rightarrow> string list \<Rightarrow> string list \<Rightarrow> error option \<times> fs" where
  "open_wb fs p content =
     (case walk fs [] p of
        Inl raise \<Rightarrow> (Some (raise (path_of p)), fs)
      | Inr cs \<Rightarrow>
          (case node_at fs cs of
             Some Dir \<Rightarrow> (Some (IsADirectoryError (path_of p)), fs)
           | _ \<Rightarrow> (None, fs(path_of cs \<mapsto> File content))))"

text \<open>
  \<^verbatim>\<open>os.makedirs(name)\<close>, on the components of \<open>name\<close> with the last one first, as its
  recursion reads them: when the head does not exist it is made first, a
  \<^verbatim>\<open>FileExistsError\<close> from that call is passed over, and a tail \<^verbatim>\<open>.\<close> ends the
  call there; then \<^verbatim>\<open>mkdir(name)\<close>, whose error is raised.
\<close>

fun makedirs :: "fs \<Rightarrow> string list \<Rightarrow> error option \<times> fs" where
  "makedirs fs [] = mkdir fs []"
| "makedirs fs (tail # head) =
     (if head \<noteq> [] \<and> \<not> exists_at fs (rev head) then
        (case makedirs fs head of
           (Some (FileExistsError x), fs') \<Rightarrow>
             if tail = ''.'' then (None, fs') else mkdir fs' (rev (tail # head))
         | (Some e, fs') \<Rightarrow> (Some e, fs')
         | (None, fs') \<Rightarrow>
             if tail = ''.'' then (None, fs') else mkdir fs' (rev (tail # head)))
      else mkdir fs (rev (tail # head)))"

subsection \<open>The archive\<close>

text \<open>
  An archive is the list \<^verbatim>\<open>tar.getmembers()\<close>: each member has its declared name and
  what it unpacks to, a regular file with its content or a directory (links and
  devices are not modelled).
\<close>

record TarInfo =
  name :: string
  payload :: node

text \<open>
  What \<^verbatim>\<open>tar.extractall(path)\<close> does with one member: the target is
  \<^verbatim>\<open>os.path.join(path, member.name)\<close>; when the directory of the target does not
  exist, \<^verbatim>\<open>os.makedirs\<close> creates it; then a regular file is opened for writing and
  written, and a directory is made, where a \<^verbatim>\<open>FileExistsError\<close> is passed over if the
  target is a directory already. With the default error level every error of the
  operating system is raised.
\<close>

definition extract_member :: "string \<Rightarrow> string \<Rightarrow> TarInfo \<Rightarrow> fs \<Rightarrow> error option \<times> fs" where
  "extract_member cwd path member fs =
     (let targetpath = components cwd (os_join path (name member));
          upperdirs = butlast targetpath;
          (r, fs1) = (if \<not> exists_at fs upperdirs then makedirs fs (rev upperdirs)
                      else (None, fs))
      in case r of
           Some e \<Rightarrow> (Some e, fs1)
         | None \<Rightarrow>
             (case payload member of
                File content \<Rightarrow> open_wb fs1 targetpath content
              | Dir \<Rightarrow>
                  (let (r2, fs2) = mkdir fs1 targetpath
                   in case r2 of
                        Some (FileExistsError x) \<Rightarrow>
                          if isdir_at fs2 targetpath then (None, fs2) else (r2, fs2)
                      | _ \<Rightarrow> (r2, fs2))))"

text \<open>
  \<^verbatim>\<open>tar.extractall(path)\<close>: the members in order, up to the first that raises. What
  the members before it have written stays.
\<close>

fun extractall :: "string \<Rightarrow> TarInfo list \<Rightarrow> string \<Rightarrow> fs \<Rightarrow> error option \<times> fs" where
  "extractall cwd [] path fs = (None, fs)"
| "extractall cwd (member # members) path fs =
     (case extract_member cwd path member fs of
        (Some e, fs') \<Rightarrow> (Some e, fs')
      | (None, fs') \<Rightarrow> extractall cwd members path fs')"

text \<open>The \<^verbatim>\<open>for member in tar.getmembers()\<close> loop of \<^verbatim>\<open>safe_extract\<close>.\<close>

fun check_members :: "string \<Rightarrow> string \<Rightarrow> TarInfo list \<Rightarrow> error + unit" where
  "check_members cwd path [] = Inr ()"
| "check_members cwd path (member # members) =
     (let member_path = os_join path (name member)
      in if \<not> is_within_directory cwd path member_path
         then Inl (Exception ''Attempted Path Traversal in Tar File'')
         else check_members cwd path members)"

text \<open>
  \<^verbatim>\<open>safe_extract(tar, path)\<close>: the loop, then \<^verbatim>\<open>tar.extractall\<close>, whose exception is
  not caught. The result is the outcome together with the file system that the call
  leaves.
\<close>

definition safe_extract :: "string \<Rightarrow> TarInfo list \<Rightarrow> string \<Rightarrow> fs \<Rightarrow> (error + unit) \<times> fs" where
  "safe_extract cwd tar path fs =
     (case check_members cwd path tar of
        Inl e \<Rightarrow> (Inl e, fs)
      | Inr _ \<Rightarrow>
          (case extractall cwd tar path fs of
             (Some e, fs') \<Rightarrow> (Inl e, fs')
           | (None, fs') \<Rightarrow> (Inr (), fs')))"

text \<open>
  The process environment: the current directory, and the expansion of a path that
  starts with a tilde.
\<close>

record os_env =
  getcwd :: string
  expand_tilde :: "string \<Rightarrow> string"

definition expanduser :: "os_env \<Rightarrow> string \<Rightarrow> string" where
  "expanduser env path =
     (case path of [] \<Rightarrow> path | c # _ \<Rightarrow> if c = CHR ''~'' then expand_tilde env path else path)"

text \<open>
  The collaborators of \<^verbatim>\<open>download_extract\<close>: \<^verbatim>\<open>download_url(url, root, filename, md5)\<close>
  leaves a file system and may fail with a message; \<^verbatim>\<open>tarfile.open\<close> reads the members
  of the archive at a path or fails.
\<close>

record collaborators =
  download_url :: "string \<Rightarrow> string \<Rightarrow> string \<Rightarrow> string \<Rightarrow> fs \<Rightarrow> string option \<times> fs"
  tarfile_open :: "fs \<Rightarrow> string \<Rightarrow> string + TarInfo list"

definition download_extract ::
  "os_env \<Rightarrow> collaborators \<Rightarrow> string \<Rightarrow> string \<Rightarrow> string \<Rightarrow> string \<Rightarrow> fs \<Rightarrow> (error + unit) \<times> fs" where
  "download_extract env net url root filename md5 fs =
     (case download_url net url root filename md5 fs of
        (Some msg, fs1) \<Rightarrow> (Inl (External msg), fs1)
      | (None, fs1) \<Rightarrow>
          (case tarfile_open net fs1 (os_join root filename) of
             Inl msg \<Rightarrow> (Inl (External msg), fs1)
           | Inr tar \<Rightarrow> safe_extract (getcwd env) tar root fs1))"

section \<open>The dataset object: \<^verbatim>\<open>VOCSegmentation\<close>\<close>

text \<open>
  \<^verbatim>\<open>DATASET_YEAR_DICT\<close>, a dictionary of dictionaries, as the module writes it (the
  entry of 2008 names the archive of 2012 as its file name there too).
\<close>

definition DATASET_YEAR_DICT :: "string \<rightharpoonup> (string \<rightharpoonup> string)" where
  "DATASET_YEAR_DICT = map_of
     [(''2012'', map_of
         [(''url'', ''http://host.robots.ox.ac.uk/pascal/VOC/voc2012/VOCtrainval_11-May-2012.tar''),
          (''filename'', ''VOCtrainval_11-May-2012.tar''),
          (''md5'', ''6cd6e144f989b92b3379bac3b3de84fd''),
          (''base_dir'', ''VOCdevkit/VOC2012'')]),
      (''2011'', map_of
         [(''url'', ''http://host.robots.ox.ac.uk/pascal/VOC/voc2011/VOCtrainval_25-May-2011.tar''),
          (''filename'', ''VOCtrainval_25-May-2011.tar''),
          (''md5'', ''6c3384ef61512963050cb5d687e5bf1e''),
          (''base_dir'', ''TrainVal/VOCdevkit/VOC2011'')]),
      (''2010'', map_of
         [(''url'', ''http://host.robots.ox.ac.uk/pascal/VOC/voc2010/VOCtrainval_03-May-2010.tar''),
          (''filename'', ''VOCtrainval_03-May-2010.tar''),
          (''md5'', ''da459979d0c395079b5c75ee67908abb''),
          (''base_dir'', ''VOCdevkit/VOC2010'')]),
      (''2009'', map_of
         [(''url'', ''http://host.robots.ox.ac.uk/pascal/VOC/voc2009/VOCtrainval_11-May-2009.tar''),
          (''filename'', ''VOCtrainval_11-May-2009.tar''),
          (''md5'', ''59065e4b188729180974ef6572f6a212''),
          (''base_dir'', ''VOCdevkit/VOC2009'')]),
      (''2008'', map_of
         [(''url'', ''http://host.robots.ox.ac.uk/pascal/VOC/voc2008/VOCtrainval_14-Jul-2008.tar''),
          (''filename'', ''VOCtrainval_11-May-2012.tar''),
          (''md5'', ''2629fa636546599198acfcfbfcf1904a''),
          (''base_dir'', ''VOCdevkit/VOC2008'')]),
      (''2007'', map_of
         [(''url'', ''http://host.robots.ox.ac.uk/pascal/VOC/voc2007/VOCtrainval_06-Nov-2007.tar''),
          (''filename'', ''VOCtrainval_06-Nov-2007.tar''),
          (''md5'', ''c52e279531787c972589f7e41ab4ae64''),
          (''base_dir'', ''VOCdevkit/VOC2007'')])]"

text \<open>
  \<^verbatim>\<open>DATASET_YEAR_DICT[year][key]\<close>: a subscript with a missing key raises
  \<^verbatim>\<open>KeyError\<close> of that key.
\<close>

definition lookup_year :: "string \<Rightarrow> string \<Rightarrow> error + string" where
  "lookup_year year key =
     (case DATASET_YEAR_DICT year of
        None \<Rightarrow> Inl (KeyError year)
      | Some d \<Rightarrow> (case d key of None \<Rightarrow> Inl (KeyError key) | Some v \<Rightarrow> Inr v))"

text \<open>
  \<^verbatim>\<open>str.isspace\<close> on the characters with a code below 256, and the strippers:
  \<^verbatim>\<open>x.strip()\<close> removes white space at both ends, \<^verbatim>\<open>s.rstrip('\n')\<close> the line feeds
  at the end.
\<close>

definition isspace :: "char \<Rightarrow> bool" where
  "isspace c =
     (let n = (of_char c :: nat)
      in (9 \<le> n \<and> n \<le> 13) \<or> (28 \<le> n \<and> n \<le> 32) \<or> n = 133 \<or> n = 160)"

definition rstrip :: "(char \<Rightarrow> bool) \<Rightarrow> string \<Rightarrow> string" where
  "rstrip P s = rev (dropWhile P (rev s))"

definition strip :: "string \<Rightarrow> string" where
  "strip s = rstrip isspace (dropWhile isspace s)"

text \<open>
  The attributes that \<^verbatim>\<open>__init__\<close> sets. A raster of the image library has type
  \<open>'img\<close>; a transform takes and returns the pair of image and target, or fails.
\<close>

record 'img VOCSegmentation =
  self_root :: string
  self_year :: string
  self_url :: string
  self_filename :: string
  self_md5 :: string
  self_transform :: "('img \<times> 'img \<Rightarrow> string + 'img \<times> 'img) option"
  self_image_set :: string
  self_images :: "string list"
  self_masks :: "string list"

text \<open>
  The branch of \<^verbatim>\<open>__init__\<close> that chooses the mask directory and the manifest file
  \<^verbatim>\<open>split_f\<close>; the \<^verbatim>\<open>assert\<close> of the augmented branch is in it.
\<close>

definition select_split :: "fs \<Rightarrow> bool \<Rightarrow> string \<Rightarrow> string \<Rightarrow> string \<Rightarrow> error + string \<times> string" where
  "select_split fs is_aug image_set root voc_root =
     (if is_aug \<and> image_set = ''train'' then
        let mask_dir = os_join voc_root ''SegmentationClassAug''
        in if \<not> exists_path fs mask_dir
           then Inl (AssertionError
             ''SegmentationClassAug not found, please refer to README.md and prepare it manually'')
           else Inr (mask_dir, os_join root ''train_aug.txt'')
      else
        let mask_dir = os_join voc_root ''SegmentationClass'';
            splits_dir = os_join voc_root ''ImageSets/Segmentation'';
            split_f = os_join splits_dir (rstrip (\<lambda>c. c = CHR 0x0A) image_set @ ''.txt'')
        in Inr (mask_dir, split_f))"

definition dataset_not_found :: string where
  "dataset_not_found = ''Dataset not found or corrupted. You can use download=True to download it''"

definition wrong_image_set :: string where
  \<open>wrong_image_set =
     ''Wrong image_set entered! Please use image_set="train" or image_set="trainval" or image_set="val"''\<close>

text \<open>
  The second half of \<^verbatim>\<open>__init__\<close>, from the check of the base directory to the
  two lists of paths, on the file system \<open>fs\<close> that the download step leaves.
\<close>

definition index_dataset ::
  "fs \<Rightarrow> bool \<Rightarrow> string \<Rightarrow> string \<Rightarrow> string \<Rightarrow> string \<Rightarrow> error + string list \<times> string list" where
  "index_dataset fs is_aug image_set root voc_root image_dir =
     (if \<not> isdir fs voc_root then Inl (RuntimeError dataset_not_found)
      else
        (case select_split fs is_aug image_set root voc_root of
           Inl e \<Rightarrow> Inl e
         | Inr (mask_dir, split_f) \<Rightarrow>
             if \<not> exists_path fs split_f then Inl (ValueError wrong_image_set)
             else
               (case readlines fs split_f of
                  Inl e \<Rightarrow> Inl e
                | Inr lines \<Rightarrow>
                    let file_names = map strip lines;
                        images = map (\<lambda>x. os_join image_dir (x @ ''.jpg'')) file_names;
                        masks = map (\<lambda>x. os_join mask_dir (x @ ''.png'')) file_names
                    in if length images \<noteq> length masks then Inl (AssertionError [])
                       else Inr (images, masks))))"

text \<open>
  \<^verbatim>\<open>VOCSegmentation.__init__(root, year, image_set, download, transform)\<close>, statement
  by statement. The result is the object or the exception raised, together with the
  file system that the call leaves (the download step may write to it).
\<close>

definition VOCSegmentation_init ::
  "os_env \<Rightarrow> collaborators \<Rightarrow> fs \<Rightarrow> string \<Rightarrow> string \<Rightarrow> string \<Rightarrow> bool
     \<Rightarrow> ('img \<times> 'img \<Rightarrow> string + 'img \<times> 'img) option
     \<Rightarrow> (error + 'img VOCSegmentation) \<times> fs" where
  "VOCSegmentation_init env net fs root year image_set download transform =
     (let is_aug = (year = ''2012_aug'');
          year = (if is_aug then ''2012'' else year);
          root' = expanduser env root
      in
      case lookup_year year ''url'' of Inl e \<Rightarrow> (Inl e, fs) | Inr url \<Rightarrow>
      case lookup_year year ''filename'' of Inl e \<Rightarrow> (Inl e, fs) | Inr filename \<Rightarrow>
      case lookup_year year ''md5'' of Inl e \<Rightarrow> (Inl e, fs) | Inr md5 \<Rightarrow>
      case lookup_year year ''base_dir'' of Inl e \<Rightarrow> (Inl e, fs) | Inr base_dir \<Rightarrow>
      let voc_root = os_join root' base_dir;
          image_dir = os_join voc_root ''JPEGImages''
      in
      case (if download then download_extract env net url root' filename md5 fs else (Inr (), fs)) of
        (Inl e, fs1) \<Rightarrow> (Inl e, fs1)
      | (Inr _, fs1) \<Rightarrow>
          (case index_dataset fs1 is_aug image_set root' voc_root image_dir of
             Inl e \<Rightarrow> (Inl e, fs1)
           | Inr (images, masks) \<Rightarrow>
               (Inr \<lparr>self_root = root', self_year = year, self_url = url,
                     self_filename = filename, self_md5 = md5,
                     self_transform = transform, self_image_set = image_set,
                     self_images = images, self_masks = masks\<rparr>, fs1)))"




definition VOCSegmentation_len :: "'img VOCSegmentation \<Rightarrow> int" where
  "VOCSegmentation_len self = int (length (self_images self))"

section \<open>Predicates and sample inputs of the statements\<close>

text \<open>A row of three integers, each in \<open>[0, 255]\<close>.\<close>

definition byte_triple :: "int \<times> int \<times> int \<Rightarrow> bool" where
  "byte_triple v = (case v of (r, g, b) \<Rightarrow> 0 \<le> r \<and> r \<le> 255 \<and> 0 \<le> g \<and> g \<le> 255 \<and> 0 \<le> b \<and> b \<le> 255)"

text \<open>
  \<open>exact_quotient r x\<close>: the binary32 number \<open>x\<close> is \<open>r / 255\<close>. \<open>rounded_quotient r x\<close>:
  \<open>x\<close> is zero for \<open>r = 0\<close> and has a significand of 24 bits otherwise, and lies within
  half a unit of its last place of \<open>r / 255\<close>.
\<close>

fun exact_quotient :: "int \<Rightarrow> f32 \<Rightarrow> bool" where
  "exact_quotient r (F32 m k) = (m * 255 = r * 2 ^ k)"

fun rounded_quotient :: "int \<Rightarrow> f32 \<Rightarrow> bool" where
  "rounded_quotient r (F32 m k) =
     (2 * \<bar>m * 255 - r * 2 ^ k\<bar> \<le> 255
      \<and> (if r = 0 then m = 0 else 2 ^ 23 \<le> m \<and> m < 2 ^ 24))"


text \<open>
  A division by 255 to run the model on: the quotient kept as the fraction of its
  numerator and denominator.
\<close>

definition fraction_255 :: "int \<Rightarrow> int \<times> int" where
  "fraction_255 x = (x, 255)"

text \<open>
  A process environment, collaborators and an image library to run the model on: the
  downloader stores an archive without members, and a raster is stood for by the path
  it was opened from.
\<close>

definition example_env :: os_env where
  "example_env = \<lparr>getcwd = ''/home/user'', expand_tilde = (\<lambda>p. ''/home/user'' @ tl p)\<rparr>"

definition example_net :: collaborators where
  "example_net =
     \<lparr>download_url = (\<lambda>url root filename md5 fs. (None, fs(os_join root filename \<mapsto> File []))),
      tarfile_open = (\<lambda>fs p. Inr [])\<rparr>"


text \<open>A data directory with the layout of VOC2012 and a manifest of two lines.\<close>

definition example_fs :: fs where
  "example_fs =
     [''/data/VOCdevkit/VOC2012'' \<mapsto> Dir,
      ''/data/VOCdevkit/VOC2012/ImageSets/Segmentation/train.txt''
        \<mapsto> File [''2007_000032\<newline>'', '' 2007_000039 \<newline>'']]"

definition example_dataset :: "string VOCSegmentation" where
  "example_dataset =
     \<lparr>self_root = ''/data'', self_year = ''2012'',
      self_url = ''http://host.robots.ox.ac.uk/pascal/VOC/voc2012/VOCtrainval_11-May-2012.tar'',
      self_filename = ''VOCtrainval_11-May-2012.tar'',
      self_md5 = ''6cd6e144f989b92b3379bac3b3de84fd'',
      self_transform = None, self_image_set = ''train'',
      self_images = [''/data/VOCdevkit/VOC2012/JPEGImages/2007_000032.jpg'',
                     ''/data/VOCdevkit/VOC2012/JPEGImages/2007_000039.jpg''],
      self_masks = [''/data/VOCdevkit/VOC2012/SegmentationClass/2007_000032.png'',
                    ''/data/VOCdevkit/VOC2012/SegmentationClass/2007_000039.png'']\<rparr>"

text \<open>The same directory prepared for the augmented training split, with a manifest of one line.\<close>

definition example_aug_fs :: fs where
  "example_aug_fs =
     [''/data/VOCdevkit/VOC2012'' \<mapsto> Dir,
      ''/data/VOCdevkit/VOC2012/SegmentationClassAug'' \<mapsto> Dir,
      ''/data/train_aug.txt'' \<mapsto> File [''2007_000032\<newline>'']]"

definition example_aug_dataset :: "string VOCSegmentation" where
  "example_aug_dataset =
     \<lparr>self_root = ''/data'', self_year = ''2012'',
      self_url = ''http://host.robots.ox.ac.uk/pascal/VOC/voc2012/VOCtrainval_11-May-2012.tar'',
      self_filename = ''VOCtrainval_11-May-2012.tar'',
      self_md5 = ''6cd6e144f989b92b3379bac3b3de84fd'',
      self_transform = None, self_image_set = ''train'',
      self_images = [''/data/VOCdevkit/VOC2012/JPEGImages/2007_000032.jpg''],
      self_masks = [''/data/VOCdevkit/VOC2012/SegmentationClassAug/2007_000032.png'']\<rparr>"

text \<open>The same layout with a manifest whose only line is an absolute path.\<close>

definition example_abs_fs :: fs where
  "example_abs_fs =
     [''/data/VOCdevkit/VOC2012'' \<mapsto> Dir,
      ''/data/VOCdevkit/VOC2012/ImageSets/Segmentation/train.txt''
        \<mapsto> File [''/abs/id5\<newline>'']]"

definition example_abs_dataset :: "string VOCSegmentation" where
  "example_abs_dataset =
     \<lparr>self_root = ''/data'', self_year = ''2012'',
      self_url = ''http://host.robots.ox.ac.uk/pascal/VOC/voc2012/VOCtrainval_11-May-2012.tar'',
      self_filename = ''VOCtrainval_11-May-2012.tar'',
      self_md5 = ''6cd6e144f989b92b3379bac3b3de84fd'',
      self_transform = None, self_image_set = ''train'',
      self_images = [''/abs/id5.jpg''],
      self_masks = [''/abs/id5.png'']\<rparr>"

text \<open>The version identifiers that \<^verbatim>\<open>DATASET_YEAR_DICT\<close> has as keys.\<close>

definition supported_years :: "string list" where
  "supported_years = [''2012'', ''2011'', ''2010'', ''2009'', ''2008'', ''2007'']"

text \<open>
  Names for the values that \<^verbatim>\<open>__init__\<close> holds in local variables: the year after the
  augmented variant is mapped to 2012, the base directory \<^verbatim>\<open>voc_root\<close>, the image
  directory, and the outcome of the download step together with the file system it
  leaves.
\<close>

definition normal_year :: "string \<Rightarrow> string" where
  "normal_year year = (if year = ''2012_aug'' then ''2012'' else year)"

definition voc_root_of :: "os_env \<Rightarrow> string \<Rightarrow> string \<Rightarrow> string" where
  "voc_root_of env root year =
     (case lookup_year (normal_year year) ''base_dir'' of
        Inl e \<Rightarrow> []
      | Inr base_dir \<Rightarrow> os_join (expanduser env root) base_dir)"

definition image_dir_of :: "os_env \<Rightarrow> string \<Rightarrow> string \<Rightarrow> string" where
  "image_dir_of env root year = os_join (voc_root_of env root year) ''JPEGImages''"

definition after_download ::
  "os_env \<Rightarrow> collaborators \<Rightarrow> fs \<Rightarrow> string \<Rightarrow> string \<Rightarrow> bool \<Rightarrow> (error + unit) \<times> fs" where
  "after_download env net fs root year download =
     (case (lookup_year (normal_year year) ''url'', lookup_year (normal_year year) ''filename'',
            lookup_year (normal_year year) ''md5'') of
        (Inr url, Inr filename, Inr md5) \<Rightarrow>
          if download then download_extract env net url (expanduser env root) filename md5 fs
          else (Inr (), fs)
      | _ \<Rightarrow> (Inr (), fs))"

section \<open>Properties of the colormap\<close>

lemma bitget_bit: "bitget c k = bit c k"
  by (simp add: bitget_def bit_iff_and_push_bit_not_eq_0)

lemma bit_loop_fold: "bit_loop js s = fold spec_step js s"
proof (induction js s rule: bit_loop.induct)
  case (1 s)
  show ?case by simp
next
  case (2 j js r g b c)
  have "spec_step j (r, g, b, c) =
      (r OR push_bit (7 - j) (of_bool (bitget c 0)),
       g OR push_bit (7 - j) (of_bool (bitget c 1)),
       b OR push_bit (7 - j) (of_bool (bitget c 2)),
       drop_bit 3 c)"
    by (simp add: spec_step_def bitget_bit push_bit_eq_mult drop_bit_eq_div)
  with 2 show ?case by simp
qed

lemma upt_8: "[0..<8] = [0, 1, 2, 3, 4, 5, 6, 7]"
  by (simp add: upt_rec)

lemma cmap_rgb_spec: "cmap_rgb i = spec_rgb i"
  by (simp only: cmap_rgb_def spec_rgb_def bit_loop_fold upt_8)

lemma or_bit_bound:
  fixes r :: int
  assumes "0 \<le> r" "r < 256" "k \<le> 7"
  shows "0 \<le> (r OR push_bit k (of_bool p)) \<and> (r OR push_bit k (of_bool p)) < 256"
proof -
  have "(2::int) ^ k \<le> 2 ^ 7"
    using assms(3) by (intro power_increasing) simp_all
  then have "push_bit k (of_bool p :: int) < 2 ^ 8"
    by (simp add: push_bit_eq_mult)
  moreover have "r < 2 ^ 8"
    using assms(2) by simp
  ultimately have "r OR push_bit k (of_bool p) < 2 ^ 8"
    using assms(1) by (intro OR_upper)
  moreover have "0 \<le> push_bit k (of_bool p :: int)"
    by simp
  ultimately show ?thesis
    using assms(1) by simp
qed

lemma bit_loop_bytes:
  assumes "\<forall>j \<in> set js. j \<le> 7" "0 \<le> r" "r < 256" "0 \<le> g" "g < 256" "0 \<le> b" "b < 256"
  shows "case bit_loop js (r, g, b, c) of (r', g', b', c') \<Rightarrow>
           0 \<le> r' \<and> r' < 256 \<and> 0 \<le> g' \<and> g' < 256 \<and> 0 \<le> b' \<and> b' < 256"
  using assms
proof (induction js arbitrary: r g b c)
  case Nil
  then show ?case by simp
next
  case (Cons j js)
  have j: "7 - j \<le> 7" by simp
  show ?case
    unfolding bit_loop.simps
    apply (rule Cons.IH)
    using Cons.prems or_bit_bound [OF _ _ j] by simp_all
qed

lemma cmap_rgb_bytes: "byte_triple (cmap_rgb i)"
proof -
  have "\<forall>j \<in> set [0..<8]. j \<le> 7" by auto
  from bit_loop_bytes [OF this, of 0 0 0 i]
  show ?thesis by (auto simp: cmap_rgb_def byte_triple_def split: prod.splits)
qed

lemma store_row_bytes: "byte_triple v \<Longrightarrow> store_row normalized v = v"
  by (auto simp: store_row_def byte_triple_def split: prod.splits)

lemma length_fill_loop: "length (fill_loop normalized is cmap) = length cmap"
  by (induction "is" arbitrary: cmap) simp_all

lemma fill_loop_nth:
  "k < length cmap \<Longrightarrow>
   fill_loop normalized is cmap ! k = (if k \<in> set is then cmap_rgb (int k) else cmap ! k)"
proof (induction "is" arbitrary: cmap)
  case Nil
  then show ?case by simp
next
  case (Cons i "is")
  then show ?case
    by (simp add: store_row_bytes [OF cmap_rgb_bytes] nth_list_update)
qed

lemma fill_loop_table:
  "fill_loop normalized [0..<m] (replicate m z) = map (\<lambda>k. cmap_rgb (int k)) [0..<m]"
  by (rule nth_equalityI) (simp_all add: length_fill_loop fill_loop_nth)

lemma voc_cmap_table:
  "0 \<le> N \<Longrightarrow>
   voc_cmap div255 N normalized =
     Inr (if normalized then Float32 (map (\<lambda>k. map_rgb div255 (spec_rgb (int k))) [0..<nat N])
          else UInt8 (map (\<lambda>k. spec_rgb (int k)) [0..<nat N]))"
  by (simp add: voc_cmap_def fill_loop_table cmap_rgb_spec comp_def)

lemma spec_rgb_0: "spec_rgb 0 = (0, 0, 0)"
  by (simp add: spec_rgb_def spec_step_def)

lemma spec_rgb_1: "spec_rgb 1 = (128, 0, 0)"
  by (simp add: spec_rgb_def spec_step_def)

text \<open>
  C3. For every size \<open>N > 0\<close> and every index \<open>i\<close> in \<open>[0, N)\<close>, the entry of the
  colormap at \<open>i\<close> is the triple of the reference bit-interleave algorithm of the
  specification (and, in the normalized table, that triple divided by 255 cell by
  cell); entry 0 is \<open>(0, 0, 0)\<close> and entry 1, when the table has one, is \<open>(128, 0, 0)\<close>.
\<close>

theorem voc_cmap_entry_reference:
  assumes "0 \<le> i" and "i < N"
  shows "(\<exists>t. voc_cmap div255 N False = Inr (UInt8 t) \<and> length t = nat N
              \<and> t ! nat i = spec_rgb i
              \<and> t ! 0 = (0, 0, 0) \<and> (1 < N \<longrightarrow> t ! 1 = (128, 0, 0)))
       \<and> (\<exists>t. voc_cmap div255 N True = Inr (Float32 t) \<and> length t = nat N
              \<and> t ! nat i = map_rgb div255 (spec_rgb i))"
proof -
  from assms have N: "0 \<le> N" and i: "nat i < nat N" and pos: "0 < nat N"
    by simp_all
  have one: "1 < N \<Longrightarrow> Suc 0 < nat N"
    by simp
  show ?thesis
    using i pos one assms(1) by (simp add: voc_cmap_table [OF N] spec_rgb_0 spec_rgb_1)
qed

theorem voc_cmap_entry_reference_witness:
  "(0::int) \<le> 2 \<and> (2::int) < 3
   \<and> (\<exists>t. voc_cmap fraction_255 3 False = Inr (UInt8 t) \<and> length t = 3
          \<and> t ! 2 = (0, 128, 0) \<and> t ! 0 = (0, 0, 0) \<and> t ! 1 = (128, 0, 0))
   \<and> (\<exists>t. voc_cmap fraction_255 3 True = Inr (Float32 t)
          \<and> t ! 2 = ((0, 255), (128, 255), (0, 255)))"
proof -
  have "spec_rgb 2 = (0, 128, 0)"
    by (simp add: spec_rgb_def spec_step_def)
  then show ?thesis
    using voc_cmap_entry_reference [of 2 3 fraction_255]
    by (auto simp: map_rgb_def fraction_255_def)
qed

text \<open>
  C5, as the code has it. The generator returns a table of exactly \<open>N\<close> entries for
  every size \<open>N \<ge> 0\<close>, the empty table for \<open>N = 0\<close>; for a negative size the allocation
  of the table raises \<^verbatim>\<open>ValueError\<close>.
\<close>

theorem voc_cmap_defined_from_zero:
  "(0 \<le> N \<longrightarrow> (\<exists>t. voc_cmap div255 N normalized = Inr t \<and> rows t = nat N))
   \<and> (N < 0 \<longrightarrow> voc_cmap div255 N normalized
                   = Inl (ValueError ''negative dimensions are not allowed''))"
  by (cases normalized) (simp_all add: voc_cmap_def Let_def length_fill_loop)

theorem voc_cmap_defined_from_zero_witness:
  "(0::int) \<le> 0 \<and> voc_cmap fraction_255 0 False = Inr (UInt8 [])
   \<and> (0::int) \<le> 2 \<and> (\<exists>t. voc_cmap fraction_255 2 True = Inr t \<and> rows t = 2)
   \<and> (- 3 :: int) < 0
   \<and> voc_cmap fraction_255 (- 3) True = Inl (ValueError ''negative dimensions are not allowed'')"
  using voc_cmap_defined_from_zero [of 0 fraction_255 False]
    voc_cmap_defined_from_zero [of 2 fraction_255 True]
    voc_cmap_defined_from_zero [of "- 3" fraction_255 True]
  by (auto simp: voc_cmap_def)

text \<open>
  The size \<open>-1\<close> is not above 0, and the generator fails for it instead of returning an
  empty table.
\<close>

theorem voc_cmap_negative_size_counterexample:
  "(- 1 :: int) \<le> 0
   \<and> voc_cmap fraction_255 (- 1) False = Inl (ValueError ''negative dimensions are not allowed'')"
  by (simp add: voc_cmap_def)

lemma voc_cmap_normalized_map:
  "(0 \<le> N \<longrightarrow>
      (\<exists>t. voc_cmap div255 N False = Inr (UInt8 t)
         \<and> voc_cmap div255 N True = Inr (Float32 (map (map_rgb div255) t))
         \<and> (\<forall>v \<in> set t. byte_triple v)))
   \<and> (N < 0 \<longrightarrow> voc_cmap div255 N True = voc_cmap div255 N False)"
proof -
  have "\<forall>v \<in> set (map (\<lambda>k. cmap_rgb (int k)) [0..<nat N]). byte_triple v"
    by (simp add: cmap_rgb_bytes)
  then show ?thesis
    by (simp add: voc_cmap_def fill_loop_table)
qed

lemma float32_div255_rounded:
  assumes "0 \<le> r" and "r \<le> 255"
  shows "rounded_quotient r (float32_div255 r)"
proof (cases "r = 0")
  case True
  then show ?thesis
    by (simp add: float32_div255_def find_None_iff [THEN iffD2])
next
  case False
  with assms have r1: "1 \<le> r" by simp
  define P where "P = (\<lambda>k::nat. (2::int) ^ 23 * 255 \<le> r * 2 ^ k)"
  have "(2::int) ^ 23 * 255 \<le> 1 * 2 ^ 31" by simp
  also have "\<dots> \<le> r * 2 ^ 31" using r1 by (intro mult_right_mono) simp_all
  finally have "P 31" by (simp add: P_def)
  then have "\<exists>k<32. P k"
    by (intro exI [of _ 31]) simp
  then have "find P [0..<32] \<noteq> None"
    by (simp add: find_None_iff)
  then obtain k where fk: "find P [0..<32] = Some k" by auto
  from fk [unfolded find_Some_iff] have pk: "P k" and least: "\<forall>j<k. \<not> P j"
    by (auto simp: nth_upt)
  define x where "x = r * 2 ^ k"
  define q where "q = x div 255"
  define rest where "rest = x mod 255"
  have x: "x = 255 * q + rest" and rest: "0 \<le> rest" "rest < 255"
    by (simp_all add: q_def rest_def)
  have lo: "2 ^ 23 * 255 \<le> x" using pk by (simp add: P_def x_def)
  have k1: "1 \<le> k"
  proof (rule ccontr)
    assume "\<not> 1 \<le> k"
    then have "k = 0" by simp
    with lo assms(2) show False by (simp add: x_def)
  qed
  define y where "y = r * 2 ^ (k - 1)"
  have xy: "x = 2 * y"
    using k1 by (cases k) (simp_all add: x_def y_def)
  have "\<not> P (k - 1)" using least k1 by simp
  then have hi: "y < 2 ^ 23 * 255" by (simp add: P_def y_def)
  define m where "m = (if 255 < 2 * rest \<or> (2 * rest = 255 \<and> odd q) then q + 1 else q)"
  have eq: "float32_div255 r = (if m = 2 ^ 24 then F32 (2 ^ 23) (k - 1) else F32 m k)"
    using fk by (simp add: float32_div255_def P_def Let_def m_def q_def rest_def x_def)
  have near: "2 * \<bar>m * 255 - x\<bar> \<le> 255" and mlo: "2 ^ 23 \<le> m" and mhi: "m \<le> 2 ^ 24"
    using x rest lo hi xy by (auto simp: m_def)
  show ?thesis
  proof (cases "m = 2 ^ 24")
    case True
    with near xy have "2 * \<bar>2 ^ 23 * 255 - y\<bar> \<le> 255" by simp arith
    with True False show ?thesis by (simp add: eq y_def)
  next
    case ne: False
    with mhi have "m < 2 ^ 24" by simp
    with near mlo ne False show ?thesis by (simp add: eq x_def)
  qed
qed

lemma float32_div255_0: "float32_div255 0 = F32 0 0"
  by code_simp

lemma float32_div255_128: "float32_div255 128 = F32 8421505 24"
  by code_simp

lemma voc_cmap_two_rows:
  "voc_cmap float32_div255 2 False = Inr (UInt8 [(0, 0, 0), (128, 0, 0)])
   \<and> voc_cmap float32_div255 2 True
       = Inr (Float32 [(F32 0 0, F32 0 0, F32 0 0), (F32 8421505 24, F32 0 0, F32 0 0)])"
proof -
  have t: "[0..<2::nat] = [0, 1]"
    by (simp add: upt_rec)
  show ?thesis
    using voc_cmap_table [of 2 float32_div255 False] voc_cmap_table [of 2 float32_div255 True]
    by (simp add: t spec_rgb_0 spec_rgb_1 map_rgb_def float32_div255_0 float32_div255_128)
qed

text \<open>
  C8, as the code has it. For every size from 0 on, the table generated with
  \<^verbatim>\<open>normalized=True\<close> holds, cell by cell, the binary32 quotient by 255 of the cell of
  the table generated with \<^verbatim>\<open>normalized=False\<close>: zero for 0, and otherwise a number
  with a significand of 24 bits within half a unit of its last place of the exact
  quotient. The cells of the table generated with \<^verbatim>\<open>normalized=False\<close> are integers
  in \<open>[0, 255]\<close>. For a negative size both calls raise the same error.
\<close>

theorem voc_cmap_normalized_rounded_quotient:
  "(0 \<le> N \<longrightarrow>
      (\<exists>t. voc_cmap float32_div255 N False = Inr (UInt8 t)
         \<and> voc_cmap float32_div255 N True = Inr (Float32 (map (map_rgb float32_div255) t))
         \<and> (\<forall>v \<in> set t. byte_triple v)
         \<and> (\<forall>(r, g, b) \<in> set t.
               rounded_quotient r (float32_div255 r) \<and> rounded_quotient g (float32_div255 g)
             \<and> rounded_quotient b (float32_div255 b))))
   \<and> (N < 0 \<longrightarrow> voc_cmap float32_div255 N True = voc_cmap float32_div255 N False)"
proof (intro conjI impI)
  assume "0 \<le> N"
  with voc_cmap_normalized_map [of N float32_div255] obtain t where
    t: "voc_cmap float32_div255 N False = Inr (UInt8 t)"
       "voc_cmap float32_div255 N True = Inr (Float32 (map (map_rgb float32_div255) t))"
    and bytes: "\<forall>v \<in> set t. byte_triple v"
    by blast
  have "rounded_quotient r (float32_div255 r) \<and> rounded_quotient g (float32_div255 g)
      \<and> rounded_quotient b (float32_div255 b)" if "(r, g, b) \<in> set t" for r g b
  proof -
    from bytes that have "byte_triple (r, g, b)" by blast
    then show ?thesis
      by (simp add: byte_triple_def float32_div255_rounded)
  qed
  with t bytes show "\<exists>t. voc_cmap float32_div255 N False = Inr (UInt8 t)
         \<and> voc_cmap float32_div255 N True = Inr (Float32 (map (map_rgb float32_div255) t))
         \<and> (\<forall>v \<in> set t. byte_triple v)
         \<and> (\<forall>(r, g, b) \<in> set t.
               rounded_quotient r (float32_div255 r) \<and> rounded_quotient g (float32_div255 g)
             \<and> rounded_quotient b (float32_div255 b))"
    by auto
next
  assume "N < 0"
  with voc_cmap_normalized_map [of N float32_div255]
  show "voc_cmap float32_div255 N True = voc_cmap float32_div255 N False"
    by blast
qed

theorem voc_cmap_normalized_rounded_quotient_witness:
  "(0::int) \<le> 2
   \<and> voc_cmap float32_div255 2 False = Inr (UInt8 [(0, 0, 0), (128, 0, 0)])
   \<and> voc_cmap float32_div255 2 True
       = Inr (Float32 [(F32 0 0, F32 0 0, F32 0 0), (F32 8421505 24, F32 0 0, F32 0 0)])
   \<and> byte_triple (0, 0, 0) \<and> byte_triple (128, 0, 0)
   \<and> rounded_quotient 0 (F32 0 0) \<and> rounded_quotient 128 (F32 8421505 24)
   \<and> (- 1 :: int) < 0
   \<and> voc_cmap float32_div255 (- 1) True = voc_cmap float32_div255 (- 1) False"
  using voc_cmap_normalized_rounded_quotient [of 2]
    voc_cmap_normalized_rounded_quotient [of "- 1"] voc_cmap_two_rows
  by (simp add: byte_triple_def)

text \<open>
  The cell that holds 128 in the table of bytes holds \<open>8421505 / 2 ^ 24\<close> in the
  normalized table, which is not \<open>128 / 255\<close>.
\<close>

theorem voc_cmap_normalized_inexact_counterexample:
  "voc_cmap float32_div255 2 False = Inr (UInt8 [(0, 0, 0), (128, 0, 0)])
   \<and> voc_cmap float32_div255 2 True
       = Inr (Float32 [(F32 0 0, F32 0 0, F32 0 0), (F32 8421505 24, F32 0 0, F32 0 0)])
   \<and> \<not> exact_quotient 128 (F32 8421505 24)"
  using voc_cmap_two_rows by simp

section \<open>Properties of the archive extractor\<close>

lemma commonprefix_eq_iff: "commonprefix a b = a \<longleftrightarrow> prefix a b"
  by (induction a b rule: commonprefix.induct) auto

lemma is_within_directory_prefix:
  "is_within_directory cwd directory target
     \<longleftrightarrow> prefix (abspath cwd directory) (abspath cwd target)"
  by (simp add: is_within_directory_def commonprefix_eq_iff)




















text \<open>
  C1. The check of \<^verbatim>\<open>is_within_directory\<close> compares raw strings: with the root
  \<^verbatim>\<open>/root\<close>, the member \<^verbatim>\<open>../root-evil/x\<close> resolves to \<^verbatim>\<open>/root-evil/x\<close>, which is not
  within \<^verbatim>\<open>/root\<close> by path segments, and yet the check accepts it and
  \<^verbatim>\<open>safe_extract\<close> unpacks the member into the sibling directory.
\<close>

theorem safe_extract_accepts_sibling:
  "is_within_directory cwd ''/root'' (os_join ''/root'' ''../root-evil/x'')
   \<and> abspath cwd (os_join ''/root'' ''../root-evil/x'') = ''/root-evil/x''
   \<and> \<not> segment_within cwd ''/root'' (os_join ''/root'' ''../root-evil/x'')
   \<and> safe_extract cwd [\<lparr>name = ''../root-evil/x'', payload = File []\<rparr>] ''/root'' Map.empty
       = (Inr (), [''/root'' \<mapsto> Dir, ''/root-evil'' \<mapsto> Dir, ''/root-evil/x'' \<mapsto> File []])"
  by (simp add: safe_extract_def extract_member_def components_def exists_at_def isdir_at_def
      mkdir_def open_wb_def node_at_def path_of_def
      is_within_directory_def segment_within_def
      path_segments_def os_join_def isabs_def abspath_def normpath_def)




section \<open>Properties of the dataset object\<close>

lemma lookup_year_unsupported:
  "year \<notin> set supported_years \<Longrightarrow> lookup_year year key = Inl (KeyError year)"
  by (simp add: lookup_year_def DATASET_YEAR_DICT_def supported_years_def)

lemma lookup_year_supported:
  assumes "year \<in> set supported_years"
  shows "\<exists>url filename md5 base_dir.
           lookup_year year ''url'' = Inr url \<and> lookup_year year ''filename'' = Inr filename
         \<and> lookup_year year ''md5'' = Inr md5 \<and> lookup_year year ''base_dir'' = Inr base_dir
         \<and> base_dir \<noteq> [] \<and> \<not> isabs base_dir \<and> last base_dir \<noteq> CHR ''/''"
  using assms
  by (auto simp: lookup_year_def DATASET_YEAR_DICT_def supported_years_def isabs_def)

lemma init_unsupported:
  "normal_year year \<notin> set supported_years \<Longrightarrow>
   VOCSegmentation_init env net fs root year image_set download transform
     = (Inl (KeyError (normal_year year)), fs)"
  by (simp add: VOCSegmentation_init_def Let_def normal_year_def lookup_year_unsupported)

lemma init_supported:
  assumes "lookup_year (normal_year year) ''url'' = Inr url"
    and "lookup_year (normal_year year) ''filename'' = Inr filename"
    and "lookup_year (normal_year year) ''md5'' = Inr md5"
    and "lookup_year (normal_year year) ''base_dir'' = Inr base_dir"
  shows "VOCSegmentation_init env net fs root year image_set download transform =
    (case after_download env net fs root year download of
       (Inl e, fs1) \<Rightarrow> (Inl e, fs1)
     | (Inr u, fs1) \<Rightarrow>
         (case index_dataset fs1 (year = ''2012_aug'') image_set (expanduser env root)
                 (voc_root_of env root year) (image_dir_of env root year) of
            Inl e \<Rightarrow> (Inl e, fs1)
          | Inr (images, masks) \<Rightarrow>
              (Inr \<lparr>self_root = expanduser env root, self_year = normal_year year, self_url = url,
                    self_filename = filename, self_md5 = md5,
                    self_transform = transform, self_image_set = image_set,
                    self_images = images, self_masks = masks\<rparr>, fs1)))"
proof -
  have v: "voc_root_of env root year = os_join (expanduser env root) base_dir"
    by (simp add: voc_root_of_def assms)
  have i: "image_dir_of env root year
      = os_join (os_join (expanduser env root) base_dir) ''JPEGImages''"
    by (simp add: image_dir_of_def v)
  have a: "after_download env net fs root year download =
      (if download then download_extract env net url (expanduser env root) filename md5 fs
       else (Inr (), fs))"
    by (simp add: after_download_def assms)
  show ?thesis
    unfolding v i a VOCSegmentation_init_def Let_def normal_year_def [symmetric]
    by (simp add: assms)
qed

lemma index_dataset_Inr:
  "index_dataset fs is_aug image_set root voc_root image_dir = Inr (images, masks) \<longleftrightarrow>
     isdir fs voc_root
   \<and> (\<exists>mask_dir split_f lines.
         select_split fs is_aug image_set root voc_root = Inr (mask_dir, split_f)
       \<and> fs split_f = Some (File lines)
       \<and> images = map (\<lambda>x. os_join image_dir (x @ ''.jpg'')) (map strip lines)
       \<and> masks = map (\<lambda>x. os_join mask_dir (x @ ''.png'')) (map strip lines))"
  by (auto simp: index_dataset_def Let_def readlines_def exists_path_def
      split: sum.splits prod.splits option.splits node.splits)

lemma index_dataset_RuntimeError:
  "index_dataset fs is_aug image_set root voc_root image_dir = Inl (RuntimeError msg) \<longleftrightarrow>
     \<not> isdir fs voc_root \<and> msg = dataset_not_found"
  by (auto simp: index_dataset_def Let_def readlines_def exists_path_def select_split_def
      split: sum.splits prod.splits option.splits node.splits if_splits)

lemma index_dataset_ValueError:
  "index_dataset fs is_aug image_set root voc_root image_dir = Inl (ValueError msg) \<longleftrightarrow>
     isdir fs voc_root
   \<and> (\<exists>mask_dir split_f. select_split fs is_aug image_set root voc_root = Inr (mask_dir, split_f)
        \<and> \<not> exists_path fs split_f)
   \<and> msg = wrong_image_set"
  by (auto simp: index_dataset_def Let_def readlines_def exists_path_def select_split_def
      split: sum.splits prod.splits option.splits node.splits if_splits)

lemma init_success:
  assumes "VOCSegmentation_init env net fs root year image_set download transform = (Inr ds, fs')"
  shows "normal_year year \<in> set supported_years
    \<and> after_download env net fs root year download = (Inr (), fs')
    \<and> isdir fs' (voc_root_of env root year)
    \<and> (\<exists>mask_dir split_f lines.
         select_split fs' (year = ''2012_aug'') image_set (expanduser env root)
             (voc_root_of env root year) = Inr (mask_dir, split_f)
       \<and> fs' split_f = Some (File lines)
       \<and> self_images ds
           = map (\<lambda>x. os_join (image_dir_of env root year) (x @ ''.jpg'')) (map strip lines)
       \<and> self_masks ds = map (\<lambda>x. os_join mask_dir (x @ ''.png'')) (map strip lines))"
proof -
  have sup: "normal_year year \<in> set supported_years"
    using assms init_unsupported [of year env net fs root image_set download transform]
    by auto
  from lookup_year_supported [OF sup] obtain url filename md5 base_dir where
    l: "lookup_year (normal_year year) ''url'' = Inr url"
       "lookup_year (normal_year year) ''filename'' = Inr filename"
       "lookup_year (normal_year year) ''md5'' = Inr md5"
       "lookup_year (normal_year year) ''base_dir'' = Inr base_dir"
    by blast
  note eq = init_supported [OF l, of env net fs root image_set download transform]
  obtain r fs1 where ad: "after_download env net fs root year download = (r, fs1)"
    by (cases "after_download env net fs root year download")
  from assms eq ad obtain images masks where
    r: "r = Inr ()" and fs1: "fs1 = fs'"
    and ix: "index_dataset fs' (year = ''2012_aug'') image_set (expanduser env root)
                 (voc_root_of env root year) (image_dir_of env root year) = Inr (images, masks)"
    and ds: "self_images ds = images" "self_masks ds = masks"
    by (auto split: sum.splits prod.splits)
  from ix [unfolded index_dataset_Inr] ds sup ad r fs1 show ?thesis
    by auto
qed

lemma example_init:
  "VOCSegmentation_init example_env example_net example_fs ''/data'' ''2012'' ''train'' False None
     = (Inr example_dataset, example_fs)"
  by (simp add: VOCSegmentation_init_def Let_def example_env_def example_fs_def example_dataset_def
      lookup_year_def DATASET_YEAR_DICT_def expanduser_def os_join_def isabs_def index_dataset_def
      isdir_def exists_path_def select_split_def readlines_def strip_def rstrip_def isspace_def)

text \<open>
  C10. A version identifier that is neither one of the six keys of
  \<^verbatim>\<open>DATASET_YEAR_DICT\<close> nor \<^verbatim>\<open>2012_aug\<close> makes \<^verbatim>\<open>__init__\<close> raise \<^verbatim>\<open>KeyError\<close> of that
  identifier, whatever the file system, the collaborators and the download flag are,
  and the file system is left as it was: no check, download or extraction has run.
\<close>

theorem init_unknown_year_KeyError:
  assumes "year \<notin> set supported_years" and "year \<noteq> ''2012_aug''"
  shows "VOCSegmentation_init env net fs root year image_set download transform
           = (Inl (KeyError year), fs)"
  using assms init_unsupported [of year env net fs root image_set download transform]
  by (simp add: normal_year_def)

theorem init_unknown_year_KeyError_witness:
  "''2013'' \<notin> set supported_years \<and> ''2013'' \<noteq> ''2012_aug''
   \<and> VOCSegmentation_init example_env example_net example_fs ''/data'' ''2013'' ''train'' True
        (None :: (string \<times> string \<Rightarrow> string + string \<times> string) option)
       = (Inl (KeyError ''2013''), example_fs)"
  using init_unknown_year_KeyError [of "''2013''" example_env example_net example_fs "''/data''" "''train''" True None]
  by (simp add: supported_years_def)

lemma last_os_join: "b \<noteq> [] \<Longrightarrow> os_join a b \<noteq> [] \<and> last (os_join a b) = last b"
  by (simp add: os_join_def)

lemma os_join_append:
  "a \<noteq> [] \<Longrightarrow> last a \<noteq> CHR ''/'' \<Longrightarrow> \<not> isabs b \<Longrightarrow> os_join a b = a @ ''/'' @ b"
  by (simp add: os_join_def)

lemma voc_root_shape:
  assumes "normal_year year \<in> set supported_years"
  shows "voc_root_of env root year \<noteq> [] \<and> last (voc_root_of env root year) \<noteq> CHR ''/''"
proof -
  from lookup_year_supported [OF assms] obtain base_dir where
    b: "lookup_year (normal_year year) ''base_dir'' = Inr base_dir" "base_dir \<noteq> []"
       "last base_dir \<noteq> CHR ''/''"
    by blast
  then show ?thesis
    using last_os_join [of base_dir "expanduser env root"] by (simp add: voc_root_of_def)
qed

lemma image_dir_shape:
  "image_dir_of env root year \<noteq> [] \<and> last (image_dir_of env root year) \<noteq> CHR ''/''"
  using last_os_join [of "''JPEGImages''" "voc_root_of env root year"]
  by (simp add: image_dir_of_def)

lemma select_split_cases:
  assumes "select_split fs is_aug image_set root voc_root = Inr (mask_dir, split_f)"
  shows "(is_aug \<and> image_set = ''train''
            \<and> mask_dir = os_join voc_root ''SegmentationClassAug''
            \<and> split_f = os_join root ''train_aug.txt'')
       \<or> (\<not> (is_aug \<and> image_set = ''train'')
            \<and> mask_dir = os_join voc_root ''SegmentationClass''
            \<and> split_f = os_join (os_join voc_root ''ImageSets/Segmentation'')
                  (rstrip (\<lambda>c. c = CHR 0x0A) image_set @ ''.txt''))"
  using assms by (auto simp: select_split_def Let_def split: if_splits)

lemma select_split_mask_shape:
  assumes "select_split fs is_aug image_set root voc_root = Inr (mask_dir, split_f)"
  shows "mask_dir \<noteq> [] \<and> last mask_dir \<noteq> CHR ''/''"
  using select_split_cases [OF assms]
    last_os_join [of "''SegmentationClassAug''" voc_root]
    last_os_join [of "''SegmentationClass''" voc_root]
  by auto


lemma rstrip_Cons:
  "rstrip P (c # cs) = (if P c \<and> rstrip P cs = [] then [] else c # rstrip P cs)"
  by (auto simp: rstrip_def dropWhile_append split: if_splits)

lemma rstrip_Nil: "rstrip P [] = []"
  by (simp add: rstrip_def)

lemma isabs_rstrip: "\<not> P CHR ''/'' \<Longrightarrow> isabs (rstrip P s) = isabs s"
  by (cases s) (auto simp: rstrip_Cons rstrip_Nil isabs_def)

lemma isabs_extension:
  "isabs (x @ ''.jpg'') = isabs x" "isabs (x @ ''.png'') = isabs x" "isabs (x @ ''.txt'') = isabs x"
  by (cases x; simp add: isabs_def)+

lemma rstrip_id: "s = [] \<or> \<not> P (last s) \<Longrightarrow> rstrip P s = s"
  by (cases s rule: rev_cases) (auto simp: rstrip_def)

lemma example_abs_init:
  "VOCSegmentation_init example_env example_net example_abs_fs ''/data'' ''2012'' ''train'' False None
     = (Inr example_abs_dataset, example_abs_fs)"
  by (simp add: VOCSegmentation_init_def Let_def example_env_def example_abs_fs_def
      example_abs_dataset_def lookup_year_def DATASET_YEAR_DICT_def expanduser_def os_join_def
      isabs_def index_dataset_def isdir_def exists_path_def select_split_def readlines_def
      strip_def rstrip_def isspace_def)

text \<open>
  C7, as the code has it. After a successful construction from a manifest of \<open>N\<close>
  lines, the lists of image paths and of mask paths have \<open>N\<close> entries each, and so
  \<^verbatim>\<open>__len__\<close> returns \<open>N\<close>; entry \<open>k\<close> of each is \<^verbatim>\<open>os.path.join\<close> of the image
  directory, respectively the mask directory, with line \<open>k\<close> of the manifest stripped
  of surrounding white space and followed by \<^verbatim>\<open>.jpg\<close>, respectively \<^verbatim>\<open>.png\<close>. That is
  the directory, a slash, the identifier and the extension for an identifier that
  does not begin with a slash, and the identifier and the extension alone for one
  that does. The entries follow the lines position by position, so order and
  duplicates are kept.
\<close>

theorem init_lists_follow_manifest:
  assumes "VOCSegmentation_init env net fs root year image_set download transform = (Inr ds, fs')"
  shows "\<exists>mask_dir split_f lines.
      select_split fs' (year = ''2012_aug'') image_set (expanduser env root)
          (voc_root_of env root year) = Inr (mask_dir, split_f)
    \<and> fs' split_f = Some (File lines)
    \<and> length (self_images ds) = length lines \<and> length (self_masks ds) = length lines
    \<and> VOCSegmentation_len ds = int (length lines)
    \<and> (\<forall>k < length lines.
         self_images ds ! k = os_join (image_dir_of env root year) (strip (lines ! k) @ ''.jpg'')
       \<and> self_masks ds ! k = os_join mask_dir (strip (lines ! k) @ ''.png'')
       \<and> (\<not> isabs (strip (lines ! k)) \<longrightarrow>
            self_images ds ! k = image_dir_of env root year @ ''/'' @ strip (lines ! k) @ ''.jpg''
          \<and> self_masks ds ! k = mask_dir @ ''/'' @ strip (lines ! k) @ ''.png'')
       \<and> (isabs (strip (lines ! k)) \<longrightarrow>
            self_images ds ! k = strip (lines ! k) @ ''.jpg''
          \<and> self_masks ds ! k = strip (lines ! k) @ ''.png''))"
proof -
  from init_success [OF assms] obtain mask_dir split_f lines where
    sel: "select_split fs' (year = ''2012_aug'') image_set (expanduser env root)
             (voc_root_of env root year) = Inr (mask_dir, split_f)"
    and manifest: "fs' split_f = Some (File lines)"
    and im: "self_images ds
           = map (\<lambda>x. os_join (image_dir_of env root year) (x @ ''.jpg'')) (map strip lines)"
    and ma: "self_masks ds = map (\<lambda>x. os_join mask_dir (x @ ''.png'')) (map strip lines)"
    by blast
  note md = select_split_mask_shape [OF sel]
  note idr = image_dir_shape [of env root year]
  have lit: "\<not> isabs x \<Longrightarrow>
      os_join (image_dir_of env root year) (x @ ''.jpg'') = image_dir_of env root year @ ''/'' @ x @ ''.jpg''
    \<and> os_join mask_dir (x @ ''.png'') = mask_dir @ ''/'' @ x @ ''.png''" for x
    using md idr by (simp add: os_join_append isabs_extension)
  have ab: "isabs x \<Longrightarrow>
      os_join (image_dir_of env root year) (x @ ''.jpg'') = x @ ''.jpg''
    \<and> os_join mask_dir (x @ ''.png'') = x @ ''.png''" for x
    by (simp add: os_join_def isabs_extension)
  show ?thesis
    apply (rule exI [of _ mask_dir], rule exI [of _ split_f], rule exI [of _ lines])
    using sel manifest lit ab by (simp add: im ma VOCSegmentation_len_def)
qed

theorem init_lists_follow_manifest_witness:
  "VOCSegmentation_init example_env example_net example_fs ''/data'' ''2012'' ''train'' False None
     = (Inr example_dataset, example_fs)
   \<and> (\<exists>mask_dir split_f lines.
        select_split example_fs (''2012'' = ''2012_aug'') ''train'' (expanduser example_env ''/data'')
          (voc_root_of example_env ''/data'' ''2012'') = Inr (mask_dir, split_f)
      \<and> example_fs split_f = Some (File lines)
      \<and> length (self_images example_dataset) = length lines
      \<and> length (self_masks example_dataset) = length lines
      \<and> VOCSegmentation_len example_dataset = int (length lines)
      \<and> (\<forall>k < length lines.
           self_images example_dataset ! k
             = os_join (image_dir_of example_env ''/data'' ''2012'') (strip (lines ! k) @ ''.jpg'')
         \<and> self_masks example_dataset ! k = os_join mask_dir (strip (lines ! k) @ ''.png'')
         \<and> (\<not> isabs (strip (lines ! k)) \<longrightarrow>
              self_images example_dataset ! k
                = image_dir_of example_env ''/data'' ''2012'' @ ''/'' @ strip (lines ! k) @ ''.jpg''
            \<and> self_masks example_dataset ! k = mask_dir @ ''/'' @ strip (lines ! k) @ ''.png'')
         \<and> (isabs (strip (lines ! k)) \<longrightarrow>
              self_images example_dataset ! k = strip (lines ! k) @ ''.jpg''
            \<and> self_masks example_dataset ! k = strip (lines ! k) @ ''.png'')))
   \<and> VOCSegmentation_len example_dataset = 2
   \<and> self_images example_dataset ! 1 = ''/data/VOCdevkit/VOC2012/JPEGImages/2007_000039.jpg''
   \<and> self_masks example_dataset ! 1 = ''/data/VOCdevkit/VOC2012/SegmentationClass/2007_000039.png''
   \<and> strip '' 2007_000039 \<newline>'' = ''2007_000039''"
proof -
  have c: "VOCSegmentation_len example_dataset = 2
   \<and> self_images example_dataset ! 1 = ''/data/VOCdevkit/VOC2012/JPEGImages/2007_000039.jpg''
   \<and> self_masks example_dataset ! 1 = ''/data/VOCdevkit/VOC2012/SegmentationClass/2007_000039.png''
   \<and> strip '' 2007_000039 \<newline>'' = ''2007_000039''"
    by (simp add: example_dataset_def VOCSegmentation_len_def strip_def rstrip_def isspace_def)
  show ?thesis
    using init_lists_follow_manifest [OF example_init] example_init c by blast
qed

text \<open>
  A manifest line that is an absolute path: the image path and the mask path are that
  path with the extension, outside the image directory and the mask directory.
\<close>

theorem init_absolute_identifier_counterexample:
  "VOCSegmentation_init example_env example_net example_abs_fs ''/data'' ''2012'' ''train'' False None
     = (Inr example_abs_dataset, example_abs_fs)
   \<and> example_abs_fs ''/data/VOCdevkit/VOC2012/ImageSets/Segmentation/train.txt''
       = Some (File [''/abs/id5\<newline>''])
   \<and> strip ''/abs/id5\<newline>'' = ''/abs/id5''
   \<and> image_dir_of example_env ''/data'' ''2012'' = ''/data/VOCdevkit/VOC2012/JPEGImages''
   \<and> self_images example_abs_dataset ! 0 = ''/abs/id5.jpg''
   \<and> self_masks example_abs_dataset ! 0 = ''/abs/id5.png''
   \<and> self_images example_abs_dataset ! 0
       \<noteq> image_dir_of example_env ''/data'' ''2012'' @ ''/'' @ ''/abs/id5'' @ ''.jpg''"
proof -
  have "image_dir_of example_env ''/data'' ''2012'' = ''/data/VOCdevkit/VOC2012/JPEGImages''"
    by (simp add: image_dir_of_def voc_root_of_def normal_year_def lookup_year_def
        DATASET_YEAR_DICT_def example_env_def expanduser_def os_join_def isabs_def)
  then show ?thesis
    using example_abs_init
    by (simp add: example_abs_fs_def example_abs_dataset_def strip_def rstrip_def isspace_def)
qed

text \<open>
  C9. In a successful construction with the version \<^verbatim>\<open>2012_aug\<close> and the split
  \<^verbatim>\<open>train\<close>, the manifest read is \<^verbatim>\<open>train_aug.txt\<close> joined to the root, and the masks
  lie in \<^verbatim>\<open>SegmentationClassAug\<close> under the base directory. In every other successful
  construction the manifest read is the split name (without trailing line feeds)
  followed by \<^verbatim>\<open>.txt\<close>, joined to \<^verbatim>\<open>ImageSets/Segmentation\<close> under the base
  directory, and the masks lie in \<^verbatim>\<open>SegmentationClass\<close> under the base directory.
\<close>

theorem init_manifest_and_mask_directory:
  assumes "VOCSegmentation_init env net fs root year image_set download transform = (Inr ds, fs')"
  shows "\<exists>lines.
     (year = ''2012_aug'' \<and> image_set = ''train'' \<longrightarrow>
          fs' (os_join (expanduser env root) ''train_aug.txt'') = Some (File lines)
        \<and> self_masks ds
            = map (\<lambda>x. os_join (voc_root_of env root year @ ''/SegmentationClassAug'') (x @ ''.png''))
                (map strip lines))
   \<and> (\<not> (year = ''2012_aug'' \<and> image_set = ''train'') \<longrightarrow>
          fs' (os_join (voc_root_of env root year @ ''/ImageSets/Segmentation'')
                 (rstrip (\<lambda>c. c = CHR 0x0A) image_set @ ''.txt'')) = Some (File lines)
        \<and> self_masks ds
            = map (\<lambda>x. os_join (voc_root_of env root year @ ''/SegmentationClass'') (x @ ''.png''))
                (map strip lines)
        \<and> (\<not> isabs image_set \<longrightarrow>
              os_join (voc_root_of env root year @ ''/ImageSets/Segmentation'')
                 (rstrip (\<lambda>c. c = CHR 0x0A) image_set @ ''.txt'')
              = voc_root_of env root year @ ''/ImageSets/Segmentation/''
                  @ rstrip (\<lambda>c. c = CHR 0x0A) image_set @ ''.txt'')
        \<and> (image_set = [] \<or> last image_set \<noteq> CHR 0x0A \<longrightarrow>
              rstrip (\<lambda>c. c = CHR 0x0A) image_set = image_set))"
proof -
  from init_success [OF assms] obtain mask_dir split_f lines where
    sup: "normal_year year \<in> set supported_years"
    and sel: "select_split fs' (year = ''2012_aug'') image_set (expanduser env root)
             (voc_root_of env root year) = Inr (mask_dir, split_f)"
    and manifest: "fs' split_f = Some (File lines)"
    and ma: "self_masks ds = map (\<lambda>x. os_join mask_dir (x @ ''.png'')) (map strip lines)"
    by blast
  note vr = voc_root_shape [OF sup, of env root]
  have j: "\<not> isabs b \<Longrightarrow> os_join (voc_root_of env root year) b = voc_root_of env root year @ ''/'' @ b" for b
    using vr by (simp add: os_join_append)
  have j1: "os_join (voc_root_of env root year) ''SegmentationClassAug''
              = voc_root_of env root year @ ''/SegmentationClassAug''"
    and j2: "os_join (voc_root_of env root year) ''SegmentationClass''
              = voc_root_of env root year @ ''/SegmentationClass''"
    and j3: "os_join (voc_root_of env root year) ''ImageSets/Segmentation''
              = voc_root_of env root year @ ''/ImageSets/Segmentation''"
    by (simp_all add: j isabs_def)
  have lit: "\<not> isabs image_set \<Longrightarrow>
      os_join (voc_root_of env root year @ ''/ImageSets/Segmentation'')
         (rstrip (\<lambda>c. c = CHR 0x0A) image_set @ ''.txt'')
      = voc_root_of env root year @ ''/ImageSets/Segmentation/''
          @ rstrip (\<lambda>c. c = CHR 0x0A) image_set @ ''.txt''"
    by (simp add: os_join_append isabs_extension isabs_rstrip)
  have rs: "image_set = [] \<or> last image_set \<noteq> CHR 0x0A \<Longrightarrow>
      rstrip (\<lambda>c. c = CHR 0x0A) image_set = image_set"
    by (rule rstrip_id) auto
  from select_split_cases [OF sel] show ?thesis
    apply (intro exI [of _ lines])
    using manifest ma lit rs by (auto simp: j1 j2 j3)
qed


lemma example_aug_init:
  "VOCSegmentation_init example_env example_net example_aug_fs ''/data'' ''2012_aug'' ''train'' False None
     = (Inr example_aug_dataset, example_aug_fs)"
  by (simp add: VOCSegmentation_init_def Let_def example_env_def example_aug_fs_def
      example_aug_dataset_def lookup_year_def DATASET_YEAR_DICT_def expanduser_def os_join_def
      isabs_def index_dataset_def isdir_def exists_path_def select_split_def readlines_def
      strip_def rstrip_def isspace_def)

theorem init_manifest_and_mask_directory_witness:
  "VOCSegmentation_init example_env example_net example_aug_fs ''/data'' ''2012_aug'' ''train'' False None
     = (Inr example_aug_dataset, example_aug_fs)
   \<and> example_aug_fs (os_join (expanduser example_env ''/data'') ''train_aug.txt'')
       = Some (File [''2007_000032\<newline>''])
   \<and> voc_root_of example_env ''/data'' ''2012_aug'' = ''/data/VOCdevkit/VOC2012''
   \<and> self_masks example_aug_dataset
       = [''/data/VOCdevkit/VOC2012/SegmentationClassAug/2007_000032.png'']
   \<and> VOCSegmentation_init example_env example_net example_fs ''/data'' ''2012'' ''train'' False None
       = (Inr example_dataset, example_fs)
   \<and> example_fs ''/data/VOCdevkit/VOC2012/ImageSets/Segmentation/train.txt''
       = Some (File [''2007_000032\<newline>'', '' 2007_000039 \<newline>''])
   \<and> self_masks example_dataset
       = [''/data/VOCdevkit/VOC2012/SegmentationClass/2007_000032.png'',
          ''/data/VOCdevkit/VOC2012/SegmentationClass/2007_000039.png'']"
proof -
  have c: "example_aug_fs (os_join (expanduser example_env ''/data'') ''train_aug.txt'')
       = Some (File [''2007_000032\<newline>''])
   \<and> voc_root_of example_env ''/data'' ''2012_aug'' = ''/data/VOCdevkit/VOC2012''
   \<and> self_masks example_aug_dataset
       = [''/data/VOCdevkit/VOC2012/SegmentationClassAug/2007_000032.png'']
   \<and> example_fs ''/data/VOCdevkit/VOC2012/ImageSets/Segmentation/train.txt''
       = Some (File [''2007_000032\<newline>'', '' 2007_000039 \<newline>''])
   \<and> self_masks example_dataset
       = [''/data/VOCdevkit/VOC2012/SegmentationClass/2007_000032.png'',
          ''/data/VOCdevkit/VOC2012/SegmentationClass/2007_000039.png'']"
    by (simp add: example_aug_fs_def example_fs_def example_env_def example_dataset_def
        example_aug_dataset_def expanduser_def os_join_def isabs_def voc_root_of_def
        normal_year_def lookup_year_def DATASET_YEAR_DICT_def)
  show ?thesis
    using init_manifest_and_mask_directory [OF example_aug_init]
      init_manifest_and_mask_directory [OF example_init] example_aug_init example_init c
    by blast
qed

text \<open>
  C6, as the code has it. For a supported version, once the download step (when asked
  for) has ended without an error and left the file system \<open>fs1\<close>: \<^verbatim>\<open>__init__\<close>
  raises \<^verbatim>\<open>RuntimeError\<close>
  exactly when the base directory is not a directory of \<open>fs1\<close>, with the message
  \<open>dataset_not_found\<close>; it raises \<^verbatim>\<open>ValueError\<close> exactly when the base directory is
  there, the choice of the manifest has not failed, and the manifest chosen does not
  exist, with the message \<open>wrong_image_set\<close> that names the three splits; and the
  call leaves the file system \<open>fs1\<close>.
\<close>

theorem init_directory_and_manifest_errors:
  assumes "normal_year year \<in> set supported_years"
    and "after_download env net fs root year download = (Inr (), fs1)"
  shows "(fst (VOCSegmentation_init env net fs root year image_set download transform)
            = Inl (RuntimeError msg)
          \<longleftrightarrow> \<not> isdir fs1 (voc_root_of env root year) \<and> msg = dataset_not_found)
       \<and> (fst (VOCSegmentation_init env net fs root year image_set download transform)
            = Inl (ValueError msg)
          \<longleftrightarrow> isdir fs1 (voc_root_of env root year)
              \<and> (\<exists>mask_dir split_f.
                    select_split fs1 (year = ''2012_aug'') image_set (expanduser env root)
                      (voc_root_of env root year) = Inr (mask_dir, split_f)
                  \<and> \<not> exists_path fs1 split_f)
              \<and> msg = wrong_image_set)
       \<and> snd (VOCSegmentation_init env net fs root year image_set download transform) = fs1"
proof -
  from lookup_year_supported [OF assms(1)] obtain url filename md5 base_dir where
    l: "lookup_year (normal_year year) ''url'' = Inr url"
       "lookup_year (normal_year year) ''filename'' = Inr filename"
       "lookup_year (normal_year year) ''md5'' = Inr md5"
       "lookup_year (normal_year year) ''base_dir'' = Inr base_dir"
    by blast
  note eq = init_supported [OF l, of env net fs root image_set download transform]
  show ?thesis
    unfolding eq assms(2)
    using index_dataset_RuntimeError [of fs1 "year = ''2012_aug''" image_set "expanduser env root"
        "voc_root_of env root year" "image_dir_of env root year" msg]
      index_dataset_ValueError [of fs1 "year = ''2012_aug''" image_set "expanduser env root"
        "voc_root_of env root year" "image_dir_of env root year" msg]
    by (auto split: sum.splits prod.splits)
qed


theorem init_directory_and_manifest_errors_witness:
  "normal_year ''2012'' \<in> set supported_years
   \<and> after_download example_env example_net example_fs ''/data'' ''2012'' True
       = (Inr (), example_fs(''/data/VOCtrainval_11-May-2012.tar'' \<mapsto> File []))
   \<and> fst (VOCSegmentation_init example_env example_net example_fs ''/data'' ''2012'' ''val'' True
            (None :: (string \<times> string \<Rightarrow> string + string \<times> string) option))
       = Inl (ValueError wrong_image_set)
   \<and> isdir (example_fs(''/data/VOCtrainval_11-May-2012.tar'' \<mapsto> File []))
        ''/data/VOCdevkit/VOC2012''
   \<and> \<not> exists_path (example_fs(''/data/VOCtrainval_11-May-2012.tar'' \<mapsto> File []))
        ''/data/VOCdevkit/VOC2012/ImageSets/Segmentation/val.txt''
   \<and> after_download example_env example_net Map.empty ''/data'' ''2012'' False = (Inr (), Map.empty)
   \<and> fst (VOCSegmentation_init example_env example_net Map.empty ''/data'' ''2012'' ''val'' False
            (None :: (string \<times> string \<Rightarrow> string + string \<times> string) option))
       = Inl (RuntimeError dataset_not_found)
   \<and> \<not> isdir Map.empty ''/data/VOCdevkit/VOC2012''"
proof -
  have y: "normal_year ''2012'' \<in> set supported_years"
    by (simp add: normal_year_def supported_years_def)
  have d1: "after_download example_env example_net example_fs ''/data'' ''2012'' True
       = (Inr (), example_fs(''/data/VOCtrainval_11-May-2012.tar'' \<mapsto> File []))"
    by (simp add: after_download_def normal_year_def lookup_year_def DATASET_YEAR_DICT_def
        download_extract_def example_net_def example_env_def expanduser_def os_join_def isabs_def
        safe_extract_def)
  have d2: "after_download example_env example_net Map.empty ''/data'' ''2012'' False
       = (Inr (), Map.empty)"
    by (simp add: after_download_def normal_year_def lookup_year_def DATASET_YEAR_DICT_def)
  have v: "voc_root_of example_env ''/data'' ''2012'' = ''/data/VOCdevkit/VOC2012''"
    by (simp add: voc_root_of_def normal_year_def lookup_year_def DATASET_YEAR_DICT_def
        example_env_def expanduser_def os_join_def isabs_def)
  have s: "select_split fs0 False ''val'' (expanduser example_env ''/data'') ''/data/VOCdevkit/VOC2012''
      = Inr (''/data/VOCdevkit/VOC2012/SegmentationClass'',
             ''/data/VOCdevkit/VOC2012/ImageSets/Segmentation/val.txt'')" for fs0
    by (simp add: select_split_def rstrip_def os_join_def isabs_def)
  have c: "isdir (example_fs(''/data/VOCtrainval_11-May-2012.tar'' \<mapsto> File []))
        ''/data/VOCdevkit/VOC2012''
   \<and> \<not> exists_path (example_fs(''/data/VOCtrainval_11-May-2012.tar'' \<mapsto> File []))
        ''/data/VOCdevkit/VOC2012/ImageSets/Segmentation/val.txt''
   \<and> \<not> isdir Map.empty ''/data/VOCdevkit/VOC2012''"
    by (simp add: isdir_def exists_path_def example_fs_def)
  show ?thesis
    using init_directory_and_manifest_errors [OF y d1, of "''val''"
        "None :: (string \<times> string \<Rightarrow> string + string \<times> string) option" wrong_image_set]
      init_directory_and_manifest_errors [OF y d2, of "''val''"
        "None :: (string \<times> string \<Rightarrow> string + string \<times> string) option" dataset_not_found]
      y d1 d2 c
    by (simp add: v s)
qed

text \<open>
  The checks of \<^verbatim>\<open>__init__\<close> run in order. With no base
  directory and no manifest the exception is the \<^verbatim>\<open>RuntimeError\<close> of the missing
  directory, not the \<^verbatim>\<open>ValueError\<close> of the missing manifest; and in the augmented
  training variant a missing \<^verbatim>\<open>SegmentationClassAug\<close> fails the assertion before the
  manifest is looked at.
\<close>

theorem init_errors_precedence_counterexample:
  "fst (VOCSegmentation_init example_env example_net Map.empty ''/data'' ''2012'' ''val'' False
          (None :: (string \<times> string \<Rightarrow> string + string \<times> string) option))
     = Inl (RuntimeError dataset_not_found)
   \<and> \<not> exists_path Map.empty ''/data/VOCdevkit/VOC2012/ImageSets/Segmentation/val.txt''
   \<and> fst (VOCSegmentation_init example_env example_net [''/data/VOCdevkit/VOC2012'' \<mapsto> Dir]
            ''/data'' ''2012_aug'' ''train'' False
            (None :: (string \<times> string \<Rightarrow> string + string \<times> string) option))
     = Inl (AssertionError
         ''SegmentationClassAug not found, please refer to README.md and prepare it manually'')
   \<and> \<not> exists_path [''/data/VOCdevkit/VOC2012'' \<mapsto> Dir] ''/data/train_aug.txt''"
  by (simp add: VOCSegmentation_init_def Let_def example_env_def
      lookup_year_def DATASET_YEAR_DICT_def expanduser_def os_join_def
      isabs_def index_dataset_def isdir_def exists_path_def select_split_def)





end
